theory Spec2Isabelle
  imports Complex_Main "HOL-Library.Word"
begin

unbundle bit_operations_syntax

section \<open>Python strings\<close>

text \<open>
  A Python \<open>str\<close> is a sequence of code points. It is modelled as a \<open>string\<close> whose
  characters are the code points U+0000 to U+00FF, so that \<open>len\<close> is \<open>length\<close>.
  \<open>str.isspace\<close>, \<open>str.lower\<close> and the UTF-8 encoding are written out for this range.
\<close>

definition isspace :: "char \<Rightarrow> bool" where
  "isspace c = ((of_char c :: nat) \<in> set [9, 10, 11, 12, 13, 28, 29, 30, 31, 32, 133, 160])"

definition strip :: "string \<Rightarrow> string" where
  "strip s = rev (dropWhile isspace (rev (dropWhile isspace s)))"

definition lower_chr :: "char \<Rightarrow> char" where
  "lower_chr c =
     (let n = (of_char c :: nat)
      in if (65 \<le> n \<and> n \<le> 90) \<or> (192 \<le> n \<and> n \<le> 222 \<and> n \<noteq> 215)
         then char_of (n + 32) else c)"

definition lower :: "string \<Rightarrow> string" where
  "lower s = map lower_chr s"

definition startswith :: "string \<Rightarrow> string \<Rightarrow> bool" where
  "startswith s p = (take (length p) s = p)"

text \<open>\<open>py_in sub s\<close> is Python's \<open>sub in s\<close> on strings: \<open>sub\<close> occurs in \<open>s\<close> as a
  contiguous run.\<close>

fun py_in :: "string \<Rightarrow> string \<Rightarrow> bool" where
  "py_in sub [] = (sub = [])"
| "py_in sub (c # cs) = (startswith (c # cs) sub \<or> py_in sub cs)"

section \<open>The error taxonomy (ollama_errors.py)\<close>

datatype ErrorType =
    CONNECTION | TIMEOUT | AUTHENTICATION | VALIDATION | RATE_LIMIT
  | MODEL_NOT_FOUND | INVALID_RESPONSE | FILE_SYSTEM | NETWORK | UNKNOWN

text \<open>The members of the enumeration in declaration order, and the \<open>.value\<close> of each.\<close>

definition all_error_types :: "ErrorType list" where
  "all_error_types =
     [CONNECTION, TIMEOUT, AUTHENTICATION, VALIDATION, RATE_LIMIT,
      MODEL_NOT_FOUND, INVALID_RESPONSE, FILE_SYSTEM, NETWORK, UNKNOWN]"

fun error_value :: "ErrorType \<Rightarrow> string" where
  "error_value CONNECTION = ''connection''"
| "error_value TIMEOUT = ''timeout''"
| "error_value AUTHENTICATION = ''authentication''"
| "error_value VALIDATION = ''validation''"
| "error_value RATE_LIMIT = ''rate_limit''"
| "error_value MODEL_NOT_FOUND = ''model_not_found''"
| "error_value INVALID_RESPONSE = ''invalid_response''"
| "error_value FILE_SYSTEM = ''file_system''"
| "error_value NETWORK = ''network''"
| "error_value UNKNOWN = ''unknown''"

type_synonym details = "(string \<times> string) list"

text \<open>
  The exception classes of the module. \<open>OllamaError\<close> takes its kind as an argument;
  each subclass fixes the kind in its constructor. The constructor arguments are the
  message and the details dictionary (its items, in insertion order). The creation
  time an error also records plays no part in what follows and is left out.
\<close>

datatype ollama_error =
    OllamaError string ErrorType details
  | ConnectionError string details
  | TimeoutError string details
  | ValidationError string details
  | ModelNotFoundError string details
  | RateLimitError string details

fun error_type :: "ollama_error \<Rightarrow> ErrorType" where
  "error_type (OllamaError m k d) = k"
| "error_type (ConnectionError m d) = CONNECTION"
| "error_type (TimeoutError m d) = TIMEOUT"
| "error_type (ValidationError m d) = VALIDATION"
| "error_type (ModelNotFoundError m d) = MODEL_NOT_FOUND"
| "error_type (RateLimitError m d) = RATE_LIMIT"


text \<open>
  An exception that is not an \<open>OllamaError\<close>, as the classifier sees it: the outcome of
  each \<open>isinstance\<close> test it makes, \<open>type(error).__name__\<close> and \<open>str(error)\<close>. The four
  tests are independent fields, since one exception can pass several of them
  (aiohttp's ServerTimeoutError is both a timeout and a client error).
\<close>

record raw_exception =
  is_asyncio_TimeoutError :: bool
  is_aiohttp_ClientError :: bool
  is_FileNotFoundError :: bool
  is_PermissionError :: bool
  type_name :: string
  str_of :: string

datatype exception = Raw raw_exception | Ollama ollama_error

text \<open>A built-in exception that passes none of the four tests.\<close>

definition builtin_exception :: "string \<Rightarrow> string \<Rightarrow> exception" where
  "builtin_exception name msg =
     Raw \<lparr>is_asyncio_TimeoutError = False, is_aiohttp_ClientError = False,
          is_FileNotFoundError = False, is_PermissionError = False,
          type_name = name, str_of = msg\<rparr>"

definition original_details :: "raw_exception \<Rightarrow> details" where
  "original_details error =
     [(''original_error'', str_of error), (''error_type'', type_name error)]"

text \<open>\<open>ErrorHandler._classify_error\<close>. The accented letter of the Spanish messages is
  U+00F3.\<close>

definition classify_error :: "raw_exception \<Rightarrow> ollama_error" where
  "classify_error error =
     (let error_str = lower (str_of error)
      in if is_asyncio_TimeoutError error then
           TimeoutError (''La operaci'' @ [CHR 0xF3] @ ''n tard'' @ [CHR 0xF3]
                           @ '' demasiado en completarse'')
             (original_details error)
         else if is_aiohttp_ClientError error then
           (if py_in ''timeout'' error_str then
              TimeoutError (''Timeout de conexi'' @ [CHR 0xF3] @ ''n con Ollama'')
                (original_details error)
            else if py_in ''connection'' error_str then
              ConnectionError ''No se puede conectar a Ollama'' (original_details error)
            else
              ConnectionError ''Error de red con Ollama'' (original_details error))
         else if is_FileNotFoundError error then
           ValidationError ''Archivo no encontrado'' (original_details error)
         else if is_PermissionError error then
           ValidationError ''Error de permisos'' (original_details error)
         else
           OllamaError (''Error inesperado: '' @ str_of error) UNKNOWN
             (original_details error))"

subsection \<open>The statistics of ErrorHandler\<close>

record error_handler =
  log_file :: string
  error_count :: int
  error_stats :: "string \<rightharpoonup> int"

text \<open>\<open>{error_type.value: 0 for error_type in ErrorType}\<close>\<close>

definition zero_stats :: "string \<rightharpoonup> int" where
  "zero_stats = map_of (map (\<lambda>k. (error_value k, 0)) all_error_types)"

definition init_handler :: "string \<Rightarrow> error_handler" where
  "init_handler file = \<lparr>log_file = file, error_count = 0, error_stats = zero_stats\<rparr>"

text \<open>
  \<open>ErrorHandler.handle_error\<close>. The sentence it returns is the row of a table with one
  row per kind; the row is named here by its kind. Writing the log line changes no
  statistics and every failure of it is caught inside \<open>_log_error\<close>, so it is not part
  of the state. A key missing from the statistics dictionary is the \<open>KeyError\<close> of
  the in-place increment, raised after the total was incremented; its text is the
  key in single quotes.
\<close>

definition get_user_message :: "ollama_error \<Rightarrow> ErrorType" where
  "get_user_message error = error_type error"

definition handle_error ::
  "error_handler \<Rightarrow> exception \<Rightarrow> (exception + ErrorType) \<times> error_handler" where
  "handle_error h error =
     (let h1 = h\<lparr>error_count := error_count h + 1\<rparr>;
          err = (case error of Ollama e \<Rightarrow> e | Raw r \<Rightarrow> classify_error r);
          key = error_value (error_type err)
      in case error_stats h1 key of
           None \<Rightarrow> (Inl (builtin_exception ''KeyError'' ([CHR 0x27] @ key @ [CHR 0x27])), h1)
         | Some n \<Rightarrow>
             (Inr (get_user_message err),
              h1\<lparr>error_stats := (error_stats h1)(key \<mapsto> n + 1)\<rparr>))"

definition clear_stats :: "error_handler \<Rightarrow> error_handler" where
  "clear_stats h = h\<lparr>error_count := 0, error_stats := zero_stats\<rparr>"

text \<open>The count of one kind, the sum over the ten kinds, and the invariant: every kind
  has its entry and the total is the sum of the entries.\<close>

definition count_of :: "error_handler \<Rightarrow> ErrorType \<Rightarrow> int" where
  "count_of h k = (case error_stats h (error_value k) of Some n \<Rightarrow> n | None \<Rightarrow> 0)"

definition stats_total :: "error_handler \<Rightarrow> int" where
  "stats_total h = sum_list (map (count_of h) all_error_types)"

definition stats_invariant :: "error_handler \<Rightarrow> bool" where
  "stats_invariant h =
     (list_all (\<lambda>k. error_stats h (error_value k) \<noteq> None) all_error_types
      \<and> error_count h = stats_total h)"

subsection \<open>Validation helpers\<close>

definition validate_question :: "string \<Rightarrow> bool" where
  "validate_question question =
     (if question = [] \<or> strip question = [] then False
      else if length (strip question) < 3 then False
      else if length question > 10000 then False
      else True)"

definition dangerous_chars :: "string list" where
  "dangerous_chars = [''<'', ''>'', [CHR 0x22], [CHR 0x27], ''&'', ''|'', '';'', [CHR 0x60]]"

definition validate_model :: "string \<Rightarrow> bool" where
  "validate_model model =
     (if model = [] \<or> strip model = [] then False
      else if list_ex (\<lambda>char. py_in char model) dangerous_chars then False
      else True)"

text \<open>\<open>path_exists\<close> is \<open>os.path.exists\<close>, the state of the file system at the call.\<close>

definition validate_file_path :: "(string \<Rightarrow> bool) \<Rightarrow> string \<Rightarrow> bool" where
  "validate_file_path path_exists file_path =
     (if file_path = [] \<or> strip file_path = [] then True
      else if py_in ''..'' file_path \<or> startswith file_path ''/'' then False
      else if \<not> path_exists file_path then False
      else True)"

subsection \<open>The retry mechanism\<close>

text \<open>
  \<open>retry_operation\<close> awaits \<open>operation()\<close> once per attempt and never passes it an
  argument, so an operation is the sequence of its outcomes: \<open>operation i\<close> is what
  the call made after \<open>i\<close> earlier calls does, the value it returns (\<open>Inr\<close>) or the
  exception it raises (\<open>Inl\<close>). The log records what the loop does to the outside:
  the number of calls made and the arguments of \<open>asyncio.sleep\<close>, in order.
\<close>

type_synonym 'a operation = "nat \<Rightarrow> exception + 'a"

text \<open>
  The base delay is a float, a real number here. \<open>delay * (2 ** attempt)\<close> turns the
  integer \<open>2 ** attempt\<close> into a float, which is an \<open>OverflowError\<close> from
  \<open>attempt = 1024\<close> on, and multiplies: by a power of two the product is exact, and
  it is an infinity once its size reaches \<open>2 ^ 1024\<close>.
\<close>

datatype pyfloat = Finite real | PosInf | NegInf

definition float_times_pow2 :: "real \<Rightarrow> nat \<Rightarrow> pyfloat" where
  "float_times_pow2 x k =
     (if 2 ^ 1024 \<le> x * 2 ^ k then PosInf
      else if x * 2 ^ k \<le> - (2 ^ 1024) then NegInf
      else Finite (x * 2 ^ k))"

record run_log =
  calls :: nat
  sleeps :: "pyfloat list"

text \<open>\<open>except (ConnectionError, TimeoutError)\<close>: the two classes of this module.\<close>

fun retryable :: "exception \<Rightarrow> bool" where
  "retryable (Ollama (ConnectionError m d)) = True"
| "retryable (Ollama (TimeoutError m d)) = True"
| "retryable e = False"

text \<open>\<open>raise last_error\<close>: raising \<open>None\<close> is a \<open>TypeError\<close> of the interpreter.\<close>

definition raise_last :: "exception option \<Rightarrow> exception" where
  "raise_last last_error =
     (case last_error of
        Some e \<Rightarrow> e
      | None \<Rightarrow> builtin_exception ''TypeError'' ''exceptions must derive from BaseException'')"

text \<open>
  The loop \<open>for attempt in range(max_retries)\<close>, entered at \<open>attempt\<close>; leaving it,
  by \<open>break\<close> or at the end of the range, reaches the final \<open>raise last_error\<close>. The
  result is \<open>Some\<close> of the value returned (\<open>Inr\<close>) or the exception raised (\<open>Inl\<close>),
  and \<open>None\<close> when the call never returns: \<open>asyncio.sleep\<close> of the positive infinity
  does not end (of a zero or negative argument it returns at once). The
  \<open>OverflowError\<close> is raised inside the handler and so leaves the function.
\<close>

function retry_loop ::
  "'a operation \<Rightarrow> int \<Rightarrow> real \<Rightarrow> int \<Rightarrow> exception option \<Rightarrow> run_log
     \<Rightarrow> (exception + 'a) option \<times> run_log" where
  "retry_loop operation max_retries delay attempt last_error w =
     (if attempt < max_retries then
        (let w1 = w\<lparr>calls := calls w + 1\<rparr>
         in case operation (calls w) of
              Inr result \<Rightarrow> (Some (Inr result), w1)
            | Inl e \<Rightarrow>
                if retryable e then
                  (if attempt < max_retries - 1 then
                     (if 1024 \<le> attempt then
                        (Some (Inl (builtin_exception ''OverflowError''
                                      ''int too large to convert to float'')), w1)
                      else if float_times_pow2 delay (nat attempt) = PosInf then
                        (None, w1\<lparr>sleeps := sleeps w1 @ [PosInf]\<rparr>)
                      else
                        retry_loop operation max_retries delay (attempt + 1) (Some e)
                          (w1\<lparr>sleeps := sleeps w1
                                         @ [float_times_pow2 delay (nat attempt)]\<rparr>))
                   else (Some (Inl (raise_last (Some e))), w1))
                else (Some (Inl e), w1))
      else (Some (Inl (raise_last last_error)), w))"
  by pat_completeness auto
termination
  by (relation "measure (\<lambda>(operation, max_retries, delay, attempt, last_error, w).
                            nat (max_retries - attempt))") auto

definition retry_operation ::
  "'a operation \<Rightarrow> int \<Rightarrow> real \<Rightarrow> (exception + 'a) option \<times> run_log" where
  "retry_operation operation max_retries delay =
     retry_loop operation max_retries delay 0 None \<lparr>calls = 0, sleeps = []\<rparr>"

text \<open>The kind a failure classifies as: its own kind when it is an \<open>OllamaError\<close>, the
  classifier's answer otherwise (as \<open>handle_error\<close> decides it).\<close>

definition kind_of :: "exception \<Rightarrow> ErrorType" where
  "kind_of e = (case e of Ollama x \<Rightarrow> error_type x | Raw r \<Rightarrow> error_type (classify_error r))"

text \<open>The first \<open>n\<close> waits \<open>d * 2^0, ..., d * 2^(n-1)\<close> are finite floats.\<close>

definition finite_waits :: "real \<Rightarrow> nat \<Rightarrow> bool" where
  "finite_waits d n = list_all (\<lambda>i. \<bar>d * 2 ^ i\<bar> < 2 ^ 1024) [0..<n]"

section \<open>The response cache (ollama_cache.py)\<close>

subsection \<open>The cache key: MD5 of the UTF-8 encoding\<close>

type_synonym byte = "8 word"

definition utf8_chr :: "char \<Rightarrow> byte list" where
  "utf8_chr c =
     (let n = (of_char c :: nat)
      in if n < 128 then [of_nat n]
         else [of_nat (192 + n div 64), of_nat (128 + n mod 64)])"

definition utf8_encode :: "string \<Rightarrow> byte list" where
  "utf8_encode s = concat (map utf8_chr s)"

text \<open>MD5 (RFC 1321) on 32-bit words: the per-round shift amounts and the sine table.\<close>

definition md5_shifts :: "nat list" where
  "md5_shifts =
     [7, 12, 17, 22, 7, 12, 17, 22, 7, 12, 17, 22, 7, 12, 17, 22,
      5, 9, 14, 20, 5, 9, 14, 20, 5, 9, 14, 20, 5, 9, 14, 20,
      4, 11, 16, 23, 4, 11, 16, 23, 4, 11, 16, 23, 4, 11, 16, 23,
      6, 10, 15, 21, 6, 10, 15, 21, 6, 10, 15, 21, 6, 10, 15, 21]"

definition md5_consts :: "32 word list" where
  "md5_consts =
     [
      0xd76aa478, 0xe8c7b756, 0x242070db, 0xc1bdceee,
      0xf57c0faf, 0x4787c62a, 0xa8304613, 0xfd469501,
      0x698098d8, 0x8b44f7af, 0xffff5bb1, 0x895cd7be,
      0x6b901122, 0xfd987193, 0xa679438e, 0x49b40821,
      0xf61e2562, 0xc040b340, 0x265e5a51, 0xe9b6c7aa,
      0xd62f105d, 0x02441453, 0xd8a1e681, 0xe7d3fbc8,
      0x21e1cde6, 0xc33707d6, 0xf4d50d87, 0x455a14ed,
      0xa9e3e905, 0xfcefa3f8, 0x676f02d9, 0x8d2a4c8a,
      0xfffa3942, 0x8771f681, 0x6d9d6122, 0xfde5380c,
      0xa4beea44, 0x4bdecfa9, 0xf6bb4b60, 0xbebfbc70,
      0x289b7ec6, 0xeaa127fa, 0xd4ef3085, 0x04881d05,
      0xd9d4d039, 0xe6db99e5, 0x1fa27cf8, 0xc4ac5665,
      0xf4292244, 0x432aff97, 0xab9423a7, 0xfc93a039,
      0x655b59c3, 0x8f0ccc92, 0xffeff47d, 0x85845dd1,
      0x6fa87e4f, 0xfe2ce6e0, 0xa3014314, 0x4e0811a1,
      0xf7537e82, 0xbd3af235, 0x2ad7d2bb, 0xeb86d391]"

definition rotl :: "nat \<Rightarrow> 32 word \<Rightarrow> 32 word" where
  "rotl n w = (push_bit n w) OR (drop_bit (32 - n) w)"

text \<open>Little-endian bytes to a word, and the \<open>k\<close> low bytes of a word.\<close>

fun le_word :: "byte list \<Rightarrow> 32 word" where
  "le_word [] = 0"
| "le_word (b # bs) = ucast b OR push_bit 8 (le_word bs)"

definition le_bytes :: "nat \<Rightarrow> 'a::len word \<Rightarrow> byte list" where
  "le_bytes k w = map (\<lambda>i. ucast (drop_bit (8 * i) w)) [0..<k]"

fun chunks :: "nat \<Rightarrow> 'a list \<Rightarrow> 'a list list" where
  "chunks n [] = []"
| "chunks n (x # xs) =
     (if n = 0 then [] else take n (x # xs) # chunks n (drop n (x # xs)))"

definition md5_pad :: "byte list \<Rightarrow> byte list" where
  "md5_pad msg =
     msg @ [0x80] @ replicate ((119 - length msg mod 64) mod 64) 0
         @ le_bytes 8 (of_nat (8 * length msg) :: 64 word)"

type_synonym md5_state = "32 word \<times> 32 word \<times> 32 word \<times> 32 word"

definition md5_round :: "32 word list \<Rightarrow> md5_state \<Rightarrow> nat \<Rightarrow> md5_state" where
  "md5_round M st i =
     (case st of (A, B, C, D) \<Rightarrow>
        let (F, g) =
              (if i < 16 then ((B AND C) OR (NOT B AND D), i)
               else if i < 32 then ((D AND B) OR (NOT D AND C), (5 * i + 1) mod 16)
               else if i < 48 then (B XOR C XOR D, (3 * i + 5) mod 16)
               else (C XOR (B OR NOT D), (7 * i) mod 16));
            F' = F + A + md5_consts ! i + M ! g
        in (D, B + rotl (md5_shifts ! i) F', B, C))"

definition md5_block :: "md5_state \<Rightarrow> byte list \<Rightarrow> md5_state" where
  "md5_block st block =
     (let M = map le_word (chunks 4 block)
      in case (st, foldl (md5_round M) st [0..<64]) of
           ((a0, b0, c0, d0), (A, B, C, D)) \<Rightarrow> (a0 + A, b0 + B, c0 + C, d0 + D))"

definition md5 :: "byte list \<Rightarrow> byte list" where
  "md5 msg =
     (case foldl md5_block (0x67452301, 0xefcdab89, 0x98badcfe, 0x10325476)
             (chunks 64 (md5_pad msg)) of
        (a, b, c, d) \<Rightarrow> concat (map (le_bytes 4) [a, b, c, d]))"

definition hex_digit :: "nat \<Rightarrow> char" where
  "hex_digit n = ''0123456789abcdef'' ! n"

definition hexdigest :: "byte list \<Rightarrow> string" where
  "hexdigest bs =
     concat (map (\<lambda>b. [hex_digit (unat b div 16), hex_digit (unat b mod 16)]) bs)"

text \<open>\<open>OllamaCache._generate_cache_key\<close>\<close>

definition generate_cache_key :: "string \<Rightarrow> string \<Rightarrow> string \<Rightarrow> string" where
  "generate_cache_key question context model =
     (let content = question @ ''|'' @ context @ ''|'' @ model
      in hexdigest (md5 (utf8_encode content)))"





subsection \<open>Entries on disk\<close>

text \<open>
  The values \<open>json.load\<close> returns: Python's \<open>None\<close>, booleans, numbers, strings, lists
  and dictionaries (a dictionary by its items; \<open>map_of\<close> looks a key up).
\<close>

datatype pyval =
    PNone | PBool bool | PInt int | PStr string | PList "pyval list"
  | PDict "(string \<times> pyval) list"

text \<open>
  A file, by what opening it and \<open>json.load\<close> do with it: \<open>open\<close> fails with an
  \<open>OSError\<close>; its bytes are not UTF-8 (\<open>UnicodeDecodeError\<close>); its text is not JSON
  (\<open>JSONDecodeError\<close>); or it holds a JSON document. The bytes \<open>json.dump\<close> writes for
  a value are a document that loads as that value.
\<close>

datatype file_content = Unreadable | NotUtf8 | NotJson | Document pyval

text \<open>
  The disk: the files by path, whether a path can be opened for writing, and whether
  the file at a path can be deleted (it cannot in a directory that is read-only).
\<close>

record disk =
  files :: "string \<rightharpoonup> file_content"
  writable :: "string \<Rightarrow> bool"
  removable :: "string \<Rightarrow> bool"

text \<open>The exceptions the cache meets, and the ones \<open>get\<close> catches:
  \<open>except (json.JSONDecodeError, KeyError, OSError)\<close>.\<close>

datatype builtin_error =
    OSError | UnicodeDecodeError | JSONDecodeError | KeyError string | TypeError | ValueError
  | OverflowError

text \<open>\<open>os.remove\<close>: an \<open>OSError\<close> when there is no such file or it cannot be deleted.\<close>

definition os_remove :: "disk \<Rightarrow> string \<Rightarrow> builtin_error + disk" where
  "os_remove d path =
     (if files d path \<noteq> None \<and> removable d path
      then Inr (d\<lparr>files := (files d)(path := None)\<rparr>)
      else Inl OSError)"

fun caught :: "builtin_error \<Rightarrow> bool" where
  "caught JSONDecodeError = True"
| "caught (KeyError k) = True"
| "caught OSError = True"
| "caught e = False"

text \<open>\<open>cache_data[key]\<close>: only a dictionary can be indexed by a string.\<close>

fun subscript :: "pyval \<Rightarrow> string \<Rightarrow> builtin_error + pyval" where
  "subscript (PDict items) key =
     (case map_of items key of None \<Rightarrow> Inl (KeyError key) | Some v \<Rightarrow> Inr v)"
| "subscript v key = Inl TypeError"

text \<open>
  A point in time is a number of microseconds on the local clock, a duration a
  difference of two. What \<open>datetime.fromisoformat\<close> makes of a string is a parameter of
  the model: it rejects it (\<open>ValueError\<close>), or reads a time without a zone, or reads a
  time with a zone, which cannot be subtracted from \<open>datetime.now()\<close> (\<open>TypeError\<close>).
  \<open>datetime.isoformat\<close> is a parameter likewise, and so is \<open>timedelta(seconds=s)\<close>: the
  duration in microseconds the library makes of a number of seconds (rounding a
  fraction), or \<open>None\<close> for its \<open>OverflowError\<close> beyond 999999999 days.
\<close>

datatype parsed_time = Invalid | Naive int | Aware

text \<open>The maximum age is the number \<open>max_age_hours * 3600\<close>: whole for a whole number
  of hours, a fraction otherwise (a test of the repository configures 0.001 hours).\<close>

record cache =
  cache_dir :: string
  max_age_seconds :: real

definition init_cache :: "string \<Rightarrow> real \<Rightarrow> cache" where
  "init_cache dir max_age_hours = \<lparr>cache_dir = dir, max_age_seconds = max_age_hours * 3600\<rparr>"

text \<open>\<open>OllamaCache()\<close> with the default arguments.\<close>

definition default_cache :: cache where
  "default_cache = init_cache ''cache'' 24"

text \<open>\<open>os.path.join\<close> on a POSIX system.\<close>

definition path_join :: "string \<Rightarrow> string \<Rightarrow> string" where
  "path_join a b =
     (if startswith b ''/'' then b
      else if a = [] \<or> last a = CHR ''/'' then a @ b
      else a @ ''/'' @ b)"

definition get_cache_file_path :: "cache \<Rightarrow> string \<Rightarrow> string" where
  "get_cache_file_path self cache_key = path_join (cache_dir self) (cache_key @ ''.json'')"

text \<open>The body of the \<open>try\<close> in \<open>get\<close>: the value returned and the disk after it, or the
  exception raised. The difference \<open>datetime.now() - cache_time\<close> is taken before the
  \<open>timedelta\<close> is built.\<close>

definition read_entry ::
  "(string \<Rightarrow> parsed_time) \<Rightarrow> (real \<Rightarrow> int option) \<Rightarrow> cache \<Rightarrow> int \<Rightarrow> disk
     \<Rightarrow> string \<Rightarrow> file_content \<Rightarrow> builtin_error + (pyval \<times> disk)" where
  "read_entry fromisoformat timedelta self now d cache_file content =
     (case content of
        Unreadable \<Rightarrow> Inl OSError
      | NotUtf8 \<Rightarrow> Inl UnicodeDecodeError
      | NotJson \<Rightarrow> Inl JSONDecodeError
      | Document cache_data \<Rightarrow>
          (case subscript cache_data ''timestamp'' of
             Inl e \<Rightarrow> Inl e
           | Inr (PStr ts) \<Rightarrow>
               (case fromisoformat ts of
                  Invalid \<Rightarrow> Inl ValueError
                | Aware \<Rightarrow> Inl TypeError
                | Naive cache_time \<Rightarrow>
                    (case timedelta (max_age_seconds self) of
                       None \<Rightarrow> Inl OverflowError
                     | Some max_age \<Rightarrow>
                         if now - cache_time > max_age then
                           (case os_remove d cache_file of
                              Inl e \<Rightarrow> Inl e
                            | Inr d' \<Rightarrow> Inr (PNone, d'))
                         else
                           (case subscript cache_data ''response'' of
                              Inl e \<Rightarrow> Inl e
                            | Inr response \<Rightarrow> Inr (response, d))))
           | Inr other \<Rightarrow> Inl TypeError))"

text \<open>\<open>OllamaCache.get\<close>, called when the clock reads \<open>now\<close>. In the handler the file
  still exists, and an \<open>os.remove\<close> that fails there raises to the caller.\<close>

definition get ::
  "(string \<Rightarrow> parsed_time) \<Rightarrow> (real \<Rightarrow> int option) \<Rightarrow> cache \<Rightarrow> int \<Rightarrow> disk
     \<Rightarrow> string \<Rightarrow> string \<Rightarrow> string \<Rightarrow> (builtin_error + pyval) \<times> disk" where
  "get fromisoformat timedelta self now d question context model =
     (let cache_key = generate_cache_key question context model;
          cache_file = get_cache_file_path self cache_key
      in case files d cache_file of
           None \<Rightarrow> (Inr PNone, d)
         | Some content \<Rightarrow>
             (case read_entry fromisoformat timedelta self now d cache_file content of
                Inr (result, d') \<Rightarrow> (Inr result, d')
              | Inl e \<Rightarrow>
                  if caught e then
                    (case os_remove d cache_file of
                       Inl e' \<Rightarrow> (Inl e', d)
                     | Inr d' \<Rightarrow> (Inr PNone, d'))
                  else (Inl e, d)))"

text \<open>\<open>OllamaCache.set\<close>, called when the clock reads \<open>now\<close>. A file that cannot be
  opened for writing is the \<open>OSError\<close> the method catches: the disk stays as it was.\<close>

definition set_entry ::
  "(int \<Rightarrow> string) \<Rightarrow> cache \<Rightarrow> int \<Rightarrow> disk \<Rightarrow> string \<Rightarrow> string \<Rightarrow> string \<Rightarrow> string
     \<Rightarrow> disk" where
  "set_entry isoformat self now d question response context model =
     (let cache_key = generate_cache_key question context model;
          cache_file = get_cache_file_path self cache_key;
          cache_data = PDict [(''question'', PStr question), (''response'', PStr response),
                              (''context'', PStr context), (''model'', PStr model),
                              (''timestamp'', PStr (isoformat now)),
                              (''cache_key'', PStr cache_key)]
      in if writable d cache_file
         then d\<lparr>files := (files d)(cache_file \<mapsto> Document cache_data)\<rparr>
         else d)"

section \<open>Properties of the string helpers\<close>

lemma py_in_iff: "py_in sub s \<longleftrightarrow> (\<exists>pre post. s = pre @ sub @ post)"
proof (induction s)
  case Nil
  then show ?case by auto
next
  case (Cons c cs)
  show ?case
  proof
    assume "py_in sub (c # cs)"
    then consider "startswith (c # cs) sub" | "py_in sub cs" by auto
    then show "\<exists>pre post. c # cs = pre @ sub @ post"
    proof cases
      case 1
      then have "c # cs = [] @ sub @ drop (length sub) (c # cs)"
        unfolding startswith_def by (metis append_Nil append_take_drop_id)
      then show ?thesis by blast
    next
      case 2
      with Cons obtain pre post where "cs = pre @ sub @ post" by auto
      then have "c # cs = (c # pre) @ sub @ post" by simp
      then show ?thesis by blast
    qed
  next
    assume "\<exists>pre post. c # cs = pre @ sub @ post"
    then obtain pre post where eq: "c # cs = pre @ sub @ post" by auto
    show "py_in sub (c # cs)"
    proof (cases pre)
      case Nil
      with eq have "startswith (c # cs) sub" by (simp add: startswith_def)
      then show ?thesis by simp
    next
      case (Cons p ps)
      with eq have "cs = ps @ sub @ post" by simp
      with Cons.IH show ?thesis by auto
    qed
  qed
qed

lemma py_in_single: "py_in [c] s \<longleftrightarrow> c \<in> set s"
  by (induction s) (auto simp: startswith_def)

lemma length_strip_le: "length (strip s) \<le> length s"
proof -
  have "length (strip s) \<le> length (dropWhile isspace s)"
    unfolding strip_def using length_dropWhile_le [of isspace "rev (dropWhile isspace s)"] by simp
  also have "\<dots> \<le> length s" by (rule length_dropWhile_le)
  finally show ?thesis .
qed

lemma strip_id:
  assumes "s \<noteq> []" and "\<not> isspace (hd s)" and "\<not> isspace (last s)"
  shows "strip s = s"
proof -
  from assms have 1: "dropWhile isspace s = s" by (cases s) auto
  from assms have "rev s \<noteq> []" "\<not> isspace (hd (rev s))" by (auto simp: hd_rev)
  then have 2: "dropWhile isspace (rev s) = rev s" by (cases "rev s") auto
  show ?thesis unfolding strip_def 1 2 by simp
qed

lemma strip_empty_iff: "strip s = [] \<longleftrightarrow> (\<forall>c \<in> set s. isspace c)"
proof
  assume "strip s = []"
  then have all: "\<forall>x \<in> set (dropWhile isspace s). isspace x"
    by (simp add: strip_def dropWhile_eq_Nil_conv)
  have "dropWhile isspace s = []"
  proof (rule ccontr)
    assume ne: "dropWhile isspace s \<noteq> []"
    then have "\<not> isspace (hd (dropWhile isspace s))" by (rule hd_dropWhile)
    moreover from ne have "hd (dropWhile isspace s) \<in> set (dropWhile isspace s)" by simp
    ultimately show False using all by blast
  qed
  then show "\<forall>c \<in> set s. isspace c" by (simp add: dropWhile_eq_Nil_conv)
next
  assume "\<forall>c \<in> set s. isspace c"
  then have d: "dropWhile isspace s = []" by (simp add: dropWhile_eq_Nil_conv)
  show "strip s = []" unfolding strip_def d by simp
qed

lemma validate_question_iff:
  "validate_question q \<longleftrightarrow> 3 \<le> length (strip q) \<and> length q \<le> 10000"
proof -
  have "strip [] = []" by (simp add: strip_def)
  then show ?thesis
    unfolding validate_question_def by (cases "strip q = []") auto
qed

lemma validate_model_iff:
  "validate_model m \<longleftrightarrow>
     strip m \<noteq> [] \<and> (\<forall>c \<in> set ''<>&|;''. c \<notin> set m)
     \<and> CHR 0x22 \<notin> set m \<and> CHR 0x27 \<notin> set m \<and> CHR 0x60 \<notin> set m"
  unfolding validate_model_def dangerous_chars_def
  by (auto simp: py_in_single strip_empty_iff)

lemma dots_not_blank:
  assumes "py_in ''..'' p"
  shows "p \<noteq> [] \<and> strip p \<noteq> []"
proof -
  from assms obtain pre post where p: "p = pre @ ''..'' @ post" by (auto simp: py_in_iff)
  have ns: "\<not> isspace (CHR ''.'')" by (simp add: isspace_def)
  from p ns show ?thesis by (auto simp: strip_empty_iff)
qed

section \<open>Classification\<close>



section \<open>Validation\<close>

text \<open>
  C7. \<open>validate_question\<close> fails for every question of length 2 and of length 10001,
  and passes for length 3 and length 10000 when at least three characters remain
  after trimming; a question that is empty or only whitespace fails, and so does one
  with fewer than three characters after trimming. \<open>validate_model\<close> fails for every
  model that contains a character of the denylist (the semicolon among them) and for
  an empty or whitespace-only model. \<open>validate_file_path\<close> accepts the empty path and
  fails for every path that contains "..", whatever exists on disk.
\<close>

theorem validation_edge_cases:
  "(length q2 = 2 \<longrightarrow> \<not> validate_question q2)
   \<and> (length q10001 = 10001 \<longrightarrow> \<not> validate_question q10001)
   \<and> (length q3 = 3 \<and> 3 \<le> length (strip q3) \<longrightarrow> validate_question q3)
   \<and> (length q10000 = 10000 \<and> 3 \<le> length (strip q10000) \<longrightarrow> validate_question q10000)
   \<and> ((\<forall>c \<in> set qb. isspace c) \<longrightarrow> \<not> validate_question qb)
   \<and> (length (strip qs) < 3 \<longrightarrow> \<not> validate_question qs)
   \<and> (x \<in> set [CHR ''<'', CHR ''>'', CHR 0x22, CHR 0x27, CHR ''&'', CHR ''|'', CHR '';'', CHR 0x60]
        \<and> x \<in> set m \<longrightarrow> \<not> validate_model m)
   \<and> ((\<forall>c \<in> set mb. isspace c) \<longrightarrow> \<not> validate_model mb)
   \<and> validate_file_path path_exists []
   \<and> (py_in ''..'' p \<longrightarrow> \<not> validate_file_path path_exists p)"
proof -
  have "length q2 = 2 \<longrightarrow> \<not> validate_question q2"
    using length_strip_le [of q2] by (simp add: validate_question_iff)
  moreover have "length q10001 = 10001 \<longrightarrow> \<not> validate_question q10001"
    by (simp add: validate_question_iff)
  moreover have "length q3 = 3 \<and> 3 \<le> length (strip q3) \<longrightarrow> validate_question q3"
    by (simp add: validate_question_iff)
  moreover have "length q10000 = 10000 \<and> 3 \<le> length (strip q10000)
                   \<longrightarrow> validate_question q10000"
    by (simp add: validate_question_iff)
  moreover have "(\<forall>c \<in> set qb. isspace c) \<longrightarrow> \<not> validate_question qb"
  proof
    assume "\<forall>c \<in> set qb. isspace c"
    then have "strip qb = []" by (simp add: strip_empty_iff)
    then show "\<not> validate_question qb" by (simp add: validate_question_iff)
  qed
  moreover have "length (strip qs) < 3 \<longrightarrow> \<not> validate_question qs"
    by (simp add: validate_question_iff)
  moreover have "x \<in> set [CHR ''<'', CHR ''>'', CHR 0x22, CHR 0x27, CHR ''&'', CHR ''|'',
                          CHR '';'', CHR 0x60] \<and> x \<in> set m \<longrightarrow> \<not> validate_model m"
    by (auto simp: validate_model_iff)
  moreover have "(\<forall>c \<in> set mb. isspace c) \<longrightarrow> \<not> validate_model mb"
    by (simp add: validate_model_iff strip_empty_iff)
  moreover have "validate_file_path path_exists []"
    by (simp add: validate_file_path_def)
  moreover have "py_in ''..'' p \<longrightarrow> \<not> validate_file_path path_exists p"
    using dots_not_blank [of p] by (auto simp: validate_file_path_def)
  ultimately show ?thesis by blast
qed

theorem validation_edge_cases_witness:
  "length ''ab'' = 2 \<and> \<not> validate_question ''ab''
   \<and> length (replicate 10001 (CHR ''a'')) = 10001
   \<and> \<not> validate_question (replicate 10001 (CHR ''a''))
   \<and> length ''abc'' = 3 \<and> 3 \<le> length (strip ''abc'') \<and> validate_question ''abc''
   \<and> length (replicate 10000 (CHR ''a'')) = 10000
   \<and> 3 \<le> length (strip (replicate 10000 (CHR ''a'')))
   \<and> validate_question (replicate 10000 (CHR ''a''))
   \<and> \<not> validate_question ''   ''
   \<and> length (strip '' ab '') < 3 \<and> \<not> validate_question '' ab ''
   \<and> CHR '';'' \<in> set ''llama3; rm -rf'' \<and> \<not> validate_model ''llama3; rm -rf''
   \<and> \<not> validate_model '' ''
   \<and> validate_file_path (\<lambda>p. True) []
   \<and> py_in ''..'' ''../secret.txt'' \<and> \<not> validate_file_path (\<lambda>p. True) ''../secret.txt''"
proof -
  have sp: "isspace (CHR '' '')" and na: "\<not> isspace (CHR ''a'')"
    and nb: "\<not> isspace (CHR ''b'')" and nc: "\<not> isspace (CHR ''c'')"
    by (simp_all add: isspace_def)
  have big: "strip (replicate 10000 (CHR ''a'')) = replicate 10000 (CHR ''a'')"
    using na by (intro strip_id) simp_all
  have s3: "strip ''abc'' = ''abc''" and s2: "strip '' ab '' = ''ab''"
    using sp na nb nc by (simp_all add: strip_def)
  have dots: "py_in ''..'' ''../secret.txt''" by (simp add: startswith_def)
  show ?thesis
    using validation_edge_cases [of "''ab''" "replicate 10001 (CHR ''a'')" "''abc''"
        "replicate 10000 (CHR ''a'')" "''   ''" "'' ab ''" "CHR '';''" "''llama3; rm -rf''"
        "'' ''" "\<lambda>p. True" "''../secret.txt''"]
      sp big s3 s2 dots
    by (simp add: startswith_def)
qed

section \<open>The statistics invariant\<close>

lemma all_error_types_complete: "k \<in> set all_error_types"
  by (cases k) (simp_all add: all_error_types_def)

lemma error_value_distinct: "distinct (map error_value all_error_types)"
  by (simp add: all_error_types_def)

lemma distinct_all_error_types: "distinct all_error_types"
  using error_value_distinct by (rule distinct_map [THEN iffD1, THEN conjunct1])

lemma error_value_inj: "error_value j = error_value k \<longleftrightarrow> j = k"
  by (cases j; cases k) simp_all

text \<open>Raising one summand of a sum over a duplicate-free list raises the sum by one.\<close>

lemma sum_bump:
  "distinct ks \<Longrightarrow> k \<in> set ks \<Longrightarrow> f' k = f k + 1 \<Longrightarrow> (\<And>j. j \<noteq> k \<Longrightarrow> f' j = f j)
   \<Longrightarrow> sum_list (map f' ks) = sum_list (map f ks) + (1::int)"
proof (induction ks)
  case Nil
  then show ?case by simp
next
  case (Cons a ks)
  show ?case
  proof (cases "a = k")
    case True
    with Cons.prems have "k \<notin> set ks" by simp
    with Cons.prems(4) have m: "map f' ks = map f ks" by (intro map_cong) (auto, metis)
    from True Cons.prems(3) show ?thesis by (simp add: m)
  next
    case False
    with Cons have "sum_list (map f' ks) = sum_list (map f ks) + 1" by simp
    with False Cons.prems(4) show ?thesis by simp
  qed
qed

lemma zero_stats_lookup: "zero_stats (error_value k) = Some 0"
  by (cases k) (simp_all add: zero_stats_def all_error_types_def)

lemma count_of_zero: "error_stats h = zero_stats \<Longrightarrow> count_of h k = 0"
  by (simp add: count_of_def zero_stats_lookup)

lemma stats_total_zero: "error_stats h = zero_stats \<Longrightarrow> stats_total h = 0"
  by (simp add: stats_total_def count_of_zero cong: map_cong)

lemma stats_invariant_zero:
  "error_stats h = zero_stats \<Longrightarrow> error_count h = 0 \<Longrightarrow> stats_invariant h"
  by (simp add: stats_invariant_def stats_total_zero list_all_iff zero_stats_lookup)

text \<open>One call of \<open>handle_error\<close> from a state that satisfies the invariant: it returns
  normally, and exactly the count of the failure's kind grows, by one, with the total.\<close>

lemma handle_error_step:
  fixes h :: error_handler and e :: exception
  defines "k \<equiv> kind_of e"
  assumes inv: "stats_invariant h"
  shows "\<exists>h'. handle_error h e = (Inr k, h') \<and> stats_invariant h'
           \<and> error_count h' = error_count h + 1
           \<and> count_of h' k = count_of h k + 1
           \<and> (\<forall>j. j \<noteq> k \<longrightarrow> count_of h' j = count_of h j)"
proof -
  have k: "k = error_type (case e of Ollama x \<Rightarrow> x | Raw r \<Rightarrow> classify_error r)"
    by (cases e) (simp_all add: k_def kind_of_def)
  from inv have "error_stats h (error_value k) \<noteq> None"
    by (simp add: stats_invariant_def list_all_iff all_error_types_complete)
  then obtain n where n: "error_stats h (error_value k) = Some n" by auto
  define h' where "h' = h\<lparr>error_count := error_count h + 1,
                          error_stats := (error_stats h)(error_value k \<mapsto> n + 1)\<rparr>"
  have run: "handle_error h e = (Inr k, h')"
    using n by (simp add: handle_error_def h'_def k get_user_message_def Let_def)
  have ck: "count_of h' k = count_of h k + 1"
    using n by (simp add: count_of_def h'_def)
  have cj: "count_of h' j = count_of h j" if "j \<noteq> k" for j
    using that by (simp add: count_of_def h'_def error_value_inj)
  have "stats_total h' = stats_total h + 1"
    unfolding stats_total_def
    using distinct_all_error_types all_error_types_complete ck cj by (rule sum_bump)
  moreover have "error_stats h' (error_value j) \<noteq> None" for j
    using inv by (simp add: h'_def stats_invariant_def list_all_iff all_error_types_complete)
  ultimately have "stats_invariant h'"
    using inv by (simp add: stats_invariant_def list_all_iff h'_def)
  with run ck cj show ?thesis by (auto simp: h'_def)
qed

text \<open>
  C9. The statistics of \<open>ErrorHandler\<close> keep the invariant that every kind has its
  entry and the total count is the sum of the ten per-kind counts. It holds at
  construction, where every count is zero; a call of \<open>handle_error\<close> on a state that
  satisfies it returns normally, raises the total by one and the count of exactly one
  kind by one, and leaves the invariant standing; \<open>clear_stats\<close> sets the total and
  every count to zero and so establishes it from any state.
\<close>

theorem error_stats_invariant:
  "stats_invariant (init_handler file) \<and> error_count (init_handler file) = 0
   \<and> (\<forall>k. count_of (init_handler file) k = 0)
   \<and> (stats_invariant h \<longrightarrow>
        (\<exists>msg h'. handle_error h e = (Inr msg, h') \<and> stats_invariant h'
           \<and> error_count h' = error_count h + 1
           \<and> (\<exists>k. count_of h' k = count_of h k + 1
                  \<and> (\<forall>j. j \<noteq> k \<longrightarrow> count_of h' j = count_of h j))))
   \<and> stats_invariant (clear_stats h) \<and> error_count (clear_stats h) = 0
   \<and> (\<forall>k. count_of (clear_stats h) k = 0)"
proof -
  have i: "error_stats (init_handler file) = zero_stats" "error_count (init_handler file) = 0"
    by (simp_all add: init_handler_def)
  have c: "error_stats (clear_stats h) = zero_stats" "error_count (clear_stats h) = 0"
    by (simp_all add: clear_stats_def)
  have step: "stats_invariant h \<longrightarrow>
        (\<exists>msg h'. handle_error h e = (Inr msg, h') \<and> stats_invariant h'
           \<and> error_count h' = error_count h + 1
           \<and> (\<exists>k. count_of h' k = count_of h k + 1
                  \<and> (\<forall>j. j \<noteq> k \<longrightarrow> count_of h' j = count_of h j)))"
    using handle_error_step [of h e] by blast
  show ?thesis
    using i c step by (simp add: stats_invariant_zero count_of_zero)
qed

theorem error_stats_invariant_witness:
  "stats_invariant (init_handler ''logs/errors.log'')
   \<and> (\<exists>h'. handle_error (init_handler ''logs/errors.log'')
              (builtin_exception ''ValueError'' ''boom'') = (Inr UNKNOWN, h')
          \<and> stats_invariant h' \<and> error_count h' = 1 \<and> count_of h' UNKNOWN = 1
          \<and> count_of h' CONNECTION = 0)"
proof -
  let ?h = "init_handler ''logs/errors.log''"
  let ?e = "builtin_exception ''ValueError'' ''boom''"
  have inv: "stats_invariant ?h"
    using error_stats_invariant [of "''logs/errors.log''" ?h ?e] by simp
  with error_stats_invariant [of "''logs/errors.log''" ?h ?e]
  obtain msg h' where h': "handle_error ?h ?e = (Inr msg, h')" "stats_invariant h'"
    "error_count h' = error_count ?h + 1" by blast
  have run: "handle_error ?h ?e = (Inr UNKNOWN,
      ?h\<lparr>error_count := 1, error_stats := zero_stats(''unknown'' \<mapsto> 1)\<rparr>)"
    by (simp add: handle_error_def init_handler_def builtin_exception_def classify_error_def
        get_user_message_def zero_stats_def all_error_types_def Let_def)
  with h' have eq: "h' = ?h\<lparr>error_count := 1, error_stats := zero_stats(''unknown'' \<mapsto> 1)\<rparr>"
    and "msg = UNKNOWN" by simp_all
  have "count_of h' UNKNOWN = 1" "count_of h' CONNECTION = 0" "error_count h' = 1"
    unfolding eq by (simp_all add: count_of_def zero_stats_def all_error_types_def init_handler_def)
  with inv h' run show ?thesis by auto
qed

section \<open>The retry mechanism\<close>

declare retry_loop.simps [simp del]

lemma run_log_update:
  "(w::run_log)\<lparr>calls := c, sleeps := s\<rparr> = \<lparr>calls = c, sleeps = s\<rparr>"
  by (cases w) simp

lemma float_times_pow2_finite:
  "\<bar>x * 2 ^ k\<bar> < 2 ^ 1024 \<Longrightarrow> float_times_pow2 x k = Finite (x * 2 ^ k)"
  by (simp add: float_times_pow2_def abs_less_iff not_le)

lemma finite_waits_iff: "finite_waits d n \<longleftrightarrow> (\<forall>i<n. \<bar>d * 2 ^ i\<bar> < 2 ^ 1024)"
  by (auto simp: finite_waits_def list_all_iff)

lemma waits_shift:
  "map (\<lambda>i. Finite (d * 2 ^ (a + i))) [0..<Suc n]
     = Finite (d * 2 ^ a) # map (\<lambda>i. Finite (d * 2 ^ (Suc a + i))) [0..<n]"
proof -
  have "[0..<Suc n] = 0 # map Suc [0..<n]"
    by (simp add: upt_conv_Cons map_Suc_upt del: upt_Suc)
  then show ?thesis by (simp add: comp_def del: upt_Suc)
qed

text \<open>
  After \<open>n\<close> retryable failures in a row, with attempts to spare, all below attempt
  1024 and with finite waits, the loop stands at attempt \<open>a + n\<close>, has called the
  operation \<open>n\<close> more times and has slept once after each failure, doubling the wait
  every time.
\<close>

lemma retry_loop_prefix:
  assumes "\<forall>i<n. \<exists>e. op (calls w + i) = Inl e \<and> retryable e"
    and "0 \<le> a" and "a + int n < K" and "a + int n \<le> 1024"
    and "\<forall>i<n. \<bar>d * 2 ^ (nat a + i)\<bar> < 2 ^ 1024"
  shows "\<exists>lst'. retry_loop op K d a lst w =
           retry_loop op K d (a + int n) lst'
             \<lparr>calls = calls w + n,
              sleeps = sleeps w @ map (\<lambda>i. Finite (d * 2 ^ (nat a + i))) [0..<n]\<rparr>"
  using assms
proof (induction n arbitrary: a lst w)
  case 0
  then show ?case by (intro exI [of _ lst]) (cases w, simp)
next
  case (Suc n)
  from Suc.prems(1) obtain e where e: "op (calls w) = Inl e" "retryable e" by force
  from Suc.prems(5) have "\<bar>d * 2 ^ (nat a + 0)\<bar> < 2 ^ 1024" by blast
  then have fin: "float_times_pow2 d (nat a) = Finite (d * 2 ^ nat a)"
    by (simp add: float_times_pow2_finite)
  let ?w = "\<lparr>calls = calls w + 1, sleeps = sleeps w @ [Finite (d * 2 ^ nat a)]\<rparr>"
  have step: "retry_loop op K d a lst w = retry_loop op K d (a + 1) (Some e) ?w"
    using e Suc.prems(2,3,4)
    by (subst retry_loop.simps) (simp add: Let_def run_log_update fin)
  have "\<forall>i<n. \<exists>e. op (calls ?w + i) = Inl e \<and> retryable e"
    using Suc.prems(1) by (auto dest: spec [of _ "Suc _"])
  moreover have "0 \<le> a + 1" "a + 1 + int n < K" "a + 1 + int n \<le> 1024"
    using Suc.prems by simp_all
  moreover have n1: "nat (a + 1) = Suc (nat a)" using Suc.prems(2) by simp
  moreover have "\<forall>i<n. \<bar>d * 2 ^ (nat (a + 1) + i)\<bar> < 2 ^ 1024"
    unfolding n1 using Suc.prems(5) by (auto dest: spec [of _ "Suc _"])
  ultimately obtain lst' where
    "retry_loop op K d (a + 1) (Some e) ?w =
       retry_loop op K d (a + 1 + int n) lst'
         \<lparr>calls = calls ?w + n,
          sleeps = sleeps ?w @ map (\<lambda>i. Finite (d * 2 ^ (nat (a + 1) + i))) [0..<n]\<rparr>"
    using Suc.IH [of ?w "a + 1" "Some e"] by blast
  moreover note n1
  moreover have "sleeps ?w @ map (\<lambda>i. Finite (d * 2 ^ (Suc (nat a) + i))) [0..<n]
                   = sleeps w @ map (\<lambda>i. Finite (d * 2 ^ (nat a + i))) [0..<Suc n]"
    unfolding waits_shift by simp
  moreover have "calls ?w + n = calls w + Suc n" "a + 1 + int n = a + int (Suc n)"
    by simp_all
  ultimately have "retry_loop op K d (a + 1) (Some e) ?w =
       retry_loop op K d (a + int (Suc n)) lst'
         \<lparr>calls = calls w + Suc n,
          sleeps = sleeps w @ map (\<lambda>i. Finite (d * 2 ^ (nat a + i))) [0..<Suc n]\<rparr>"
    by metis
  with step show ?case by metis
qed

lemma retry_operation_prefix:
  assumes "\<forall>i<n. \<exists>e. op i = Inl e \<and> retryable e" and "int n < K"
    and "n \<le> 1024" and "finite_waits d n"
  shows "\<exists>lst'. retry_operation op K d =
           retry_loop op K d (int n) lst'
             \<lparr>calls = n, sleeps = map (\<lambda>i. Finite (d * 2 ^ i)) [0..<n]\<rparr>"
  using retry_loop_prefix [of n op "\<lparr>calls = 0, sleeps = []\<rparr>" 0 K d None] assms
  by (simp add: retry_operation_def finite_waits_iff)

lemma retry_success:
  assumes "\<forall>i<n. \<exists>e. op i = Inl e \<and> retryable e" and "op n = Inr v" and "int n < K"
    and "n \<le> 1024" and "finite_waits d n"
  shows "retry_operation op K d
           = (Some (Inr v),
              \<lparr>calls = n + 1, sleeps = map (\<lambda>i. Finite (d * 2 ^ i)) [0..<n]\<rparr>)"
proof -
  obtain lst' where
    "retry_operation op K d =
       retry_loop op K d (int n) lst'
         \<lparr>calls = n, sleeps = map (\<lambda>i. Finite (d * 2 ^ i)) [0..<n]\<rparr>"
    using retry_operation_prefix [OF assms(1,3,4,5)] by blast
  then show ?thesis
    using assms(2,3) by (subst (asm) retry_loop.simps) (simp add: Let_def)
qed

lemma retry_failfast:
  assumes "\<forall>i<n. \<exists>e. op i = Inl e \<and> retryable e" and "op n = Inl e"
    and "\<not> retryable e" and "int n < K" and "n \<le> 1024" and "finite_waits d n"
  shows "retry_operation op K d
           = (Some (Inl e),
              \<lparr>calls = n + 1, sleeps = map (\<lambda>i. Finite (d * 2 ^ i)) [0..<n]\<rparr>)"
proof -
  obtain lst' where
    "retry_operation op K d =
       retry_loop op K d (int n) lst'
         \<lparr>calls = n, sleeps = map (\<lambda>i. Finite (d * 2 ^ i)) [0..<n]\<rparr>"
    using retry_operation_prefix [OF assms(1,4,5,6)] by blast
  then show ?thesis
    using assms(2,3,4) by (subst (asm) retry_loop.simps) (simp add: Let_def)
qed

lemma retry_exhausted:
  assumes "\<forall>i<Suc n. \<exists>e. op i = Inl e \<and> retryable e" and "K = int (Suc n)"
    and "n \<le> 1024" and "finite_waits d n"
  shows "\<exists>e. op n = Inl e \<and>
           retry_operation op K d
             = (Some (Inl e),
                \<lparr>calls = Suc n, sleeps = map (\<lambda>i. Finite (d * 2 ^ i)) [0..<n]\<rparr>)"
proof -
  from assms(1) obtain e where e: "op n = Inl e" "retryable e" by blast
  have "\<forall>i<n. \<exists>e. op i = Inl e \<and> retryable e" using assms(1) by auto
  moreover have "int n < K" using assms(2) by simp
  ultimately obtain lst' where
    "retry_operation op K d =
       retry_loop op K d (int n) lst'
         \<lparr>calls = n, sleeps = map (\<lambda>i. Finite (d * 2 ^ i)) [0..<n]\<rparr>"
    using retry_operation_prefix assms(3,4) by blast
  then have "retry_operation op K d
               = (Some (Inl e),
                  \<lparr>calls = Suc n, sleeps = map (\<lambda>i. Finite (d * 2 ^ i)) [0..<n]\<rparr>)"
    using e assms(2) by (subst (asm) retry_loop.simps) (simp add: Let_def raise_last_def)
  with e show ?thesis by blast
qed

text \<open>At attempt 1024, with an attempt to spare, the wait cannot be computed.\<close>

lemma retry_overflow:
  assumes "\<forall>i<1025. \<exists>e. op i = Inl e \<and> retryable e" and "1025 < K"
    and "finite_waits d 1024"
  shows "retry_operation op K d
           = (Some (Inl (builtin_exception ''OverflowError''
                           ''int too large to convert to float'')),
              \<lparr>calls = 1025, sleeps = map (\<lambda>i. Finite (d * 2 ^ i)) [0..<1024]\<rparr>)"
proof -
  have "(1024::nat) < 1025" by simp
  with assms(1) obtain e where e: "op 1024 = Inl e" "retryable e" by blast
  have "\<forall>i<1024. \<exists>e. op i = Inl e \<and> retryable e" using assms(1) by auto
  moreover have "int 1024 < K" using assms(2) by simp
  ultimately obtain lst' where
    "retry_operation op K d =
       retry_loop op K d (int 1024) lst'
         \<lparr>calls = 1024, sleeps = map (\<lambda>i. Finite (d * 2 ^ i)) [0..<1024]\<rparr>"
    using retry_operation_prefix [of 1024 op K d] assms(3) by auto
  then show ?thesis
    using e assms(2) by (subst (asm) retry_loop.simps) (simp add: Let_def)
qed

text \<open>A wait that is the positive infinity is never over.\<close>

lemma retry_never_returns:
  assumes "\<forall>i\<le>n. \<exists>e. op i = Inl e \<and> retryable e" and "int n < K - 1"
    and "n < 1024" and "finite_waits d n" and "2 ^ 1024 \<le> d * 2 ^ n"
  shows "retry_operation op K d
           = (None, \<lparr>calls = n + 1,
                     sleeps = map (\<lambda>i. Finite (d * 2 ^ i)) [0..<n] @ [PosInf]\<rparr>)"
proof -
  from assms(1) obtain e where e: "op n = Inl e" "retryable e" by blast
  have "\<forall>i<n. \<exists>e. op i = Inl e \<and> retryable e" using assms(1) by auto
  moreover have "int n < K" "n \<le> 1024" using assms(2,3) by simp_all
  ultimately obtain lst' where
    "retry_operation op K d =
       retry_loop op K d (int n) lst'
         \<lparr>calls = n, sleeps = map (\<lambda>i. Finite (d * 2 ^ i)) [0..<n]\<rparr>"
    using retry_operation_prefix assms(4) by blast
  moreover have "float_times_pow2 d n = PosInf"
    using assms(5) by (simp add: float_times_pow2_def)
  ultimately show ?thesis
    using e assms(2,3)
    by (subst (asm) retry_loop.simps) (simp add: Let_def run_log_update)
qed

lemma retryable_kind: "retryable e \<Longrightarrow> kind_of e = CONNECTION \<or> kind_of e = TIMEOUT"
  by (cases e rule: retryable.cases) (simp_all add: kind_of_def)

lemma retryable_iff:
  "retryable e \<longleftrightarrow>
     (\<exists>m dt. e = Ollama (ConnectionError m dt) \<or> e = Ollama (TimeoutError m dt))"
  by (cases e rule: retryable.cases) auto

text \<open>For an error the classifier made, the class test of the loop and the kind agree.\<close>

lemma retryable_classified:
  "retryable (Ollama (classify_error r)) \<longleftrightarrow>
     error_type (classify_error r) = CONNECTION \<or> error_type (classify_error r) = TIMEOUT"
  by (simp add: classify_error_def Let_def)

text \<open>
  C3 (as amended). A failure is retried when it is a \<open>ConnectionError\<close> or a
  \<open>TimeoutError\<close> of this module, the classes the loop's handler names. With maximum
  attempt count \<open>K\<close> and base delay \<open>d\<close>, as long as the attempts stay below 1025 and
  the waits are finite floats: when the first \<open>N\<close> calls (\<open>N < K\<close>) fail with such a
  failure and the next call succeeds, the success value is returned after exactly
  \<open>N + 1\<close> calls, the waits before the retries having been \<open>d * 2^0, ..., d * 2^(N-1)\<close>
  in this order; so a success ends the loop at once. When every call fails with such
  a failure and \<open>K\<close> is at least one, exactly \<open>K\<close> calls are made, \<open>K - 1\<close> waits
  separate them, and the failure of the last call is the one raised.
\<close>

theorem retry_operation_backoff:
  "(retryable x \<longleftrightarrow>
      (\<exists>m dt. x = Ollama (ConnectionError m dt) \<or> x = Ollama (TimeoutError m dt)))
   \<and> ((\<forall>i<N. \<exists>e. op i = Inl e \<and> retryable e) \<and> op N = Inr v \<and> int N < K
        \<and> N \<le> 1024 \<and> finite_waits d N \<longrightarrow>
        retry_operation op K d
          = (Some (Inr v),
             \<lparr>calls = N + 1, sleeps = map (\<lambda>i. Finite (d * 2 ^ i)) [0..<N]\<rparr>))
   \<and> ((\<forall>i. \<exists>e. op' i = Inl e \<and> retryable e) \<and> 0 < K' \<and> K' \<le> 1025
        \<and> finite_waits d (nat K' - 1) \<longrightarrow>
        (\<exists>e. op' (nat K' - 1) = Inl e \<and>
           retry_operation op' K' d
             = (Some (Inl e),
                \<lparr>calls = nat K',
                 sleeps = map (\<lambda>i. Finite (d * 2 ^ i)) [0..<nat K' - 1]\<rparr>)))"
proof (intro conjI impI)
  show "retryable x \<longleftrightarrow>
      (\<exists>m dt. x = Ollama (ConnectionError m dt) \<or> x = Ollama (TimeoutError m dt))"
    by (rule retryable_iff)
next
  assume "(\<forall>i<N. \<exists>e. op i = Inl e \<and> retryable e) \<and> op N = Inr v \<and> int N < K
        \<and> N \<le> 1024 \<and> finite_waits d N"
  then show "retry_operation op K d
               = (Some (Inr v),
                  \<lparr>calls = N + 1, sleeps = map (\<lambda>i. Finite (d * 2 ^ i)) [0..<N]\<rparr>)"
    using retry_success [of N op v K d] by blast
next
  assume a: "(\<forall>i. \<exists>e. op' i = Inl e \<and> retryable e) \<and> 0 < K' \<and> K' \<le> 1025
        \<and> finite_waits d (nat K' - 1)"
  then have "K' = int (Suc (nat K' - 1))" by simp
  then obtain n where n: "K' = int (Suc n)" ..
  then have k: "nat K' - 1 = n" "nat K' = Suc n" by simp_all
  from a have 1: "\<forall>i<Suc n. \<exists>e. op' i = Inl e \<and> retryable e" by blast
  from a n have 2: "n \<le> 1024" by simp
  from a have 3: "finite_waits d n" by (simp add: k)
  from retry_exhausted [OF 1 n 2 3]
  show "\<exists>e. op' (nat K' - 1) = Inl e \<and>
          retry_operation op' K' d
            = (Some (Inl e),
               \<lparr>calls = nat K',
                sleeps = map (\<lambda>i. Finite (d * 2 ^ i)) [0..<nat K' - 1]\<rparr>)"
    by (simp add: k)
qed

theorem retry_operation_backoff_witness:
  "retry_operation
     (\<lambda>i. if i < 2 then Inl (Ollama (ConnectionError ''refused'' [])) else Inr ''answer'')
     3 1
     = (Some (Inr ''answer''), \<lparr>calls = 3, sleeps = [Finite 1, Finite 2]\<rparr>)
   \<and> retry_operation
       (\<lambda>i. Inl (Ollama (TimeoutError ''slow'' [])) :: exception + string) 3 1
       = (Some (Inl (Ollama (TimeoutError ''slow'' []))),
          \<lparr>calls = 3, sleeps = [Finite 1, Finite 2]\<rparr>)"
proof -
  have u: "[0..<2] = [0, Suc 0]" by (simp add: upt_rec)
  have f: "finite_waits 1 2" by (simp add: finite_waits_def u)
  show ?thesis
    using retry_operation_backoff
      [of "Ollama (TimeoutError ''slow'' [])" 2
          "\<lambda>i. if i < 2 then Inl (Ollama (ConnectionError ''refused'' [])) else Inr ''answer''"
          "''answer''" 3 1
          "\<lambda>i. Inl (Ollama (TimeoutError ''slow'' [])) :: exception + string" 3] f
    by (simp add: u)
qed

text \<open>
  Where the unamended claim fails. A raw \<open>asyncio.TimeoutError\<close> classifies as
  Timeout, and an \<open>OllamaError\<close> built with the kind Connection has that kind, yet
  neither is one of the two classes: the operation is called once, not three times.
  With 1026 attempts allowed and a zero delay, the wait of attempt 1024 is an
  \<open>OverflowError\<close> after 1025 calls. With the delay \<open>2^1023\<close> the second wait is the
  infinity and the call never returns. With no attempt allowed there is no failure
  to raise, and a \<open>TypeError\<close> is raised.
\<close>

theorem retry_operation_kind_not_retried:
  "kind_of (Raw \<lparr>is_asyncio_TimeoutError = True, is_aiohttp_ClientError = False,
                is_FileNotFoundError = False, is_PermissionError = False,
                type_name = ''TimeoutError'', str_of = []\<rparr>) = TIMEOUT
   \<and> retry_operation
       (\<lambda>i. Inl (Raw \<lparr>is_asyncio_TimeoutError = True, is_aiohttp_ClientError = False,
                      is_FileNotFoundError = False, is_PermissionError = False,
                      type_name = ''TimeoutError'', str_of = []\<rparr>) :: exception + string)
       3 1
       = (Some (Inl (Raw \<lparr>is_asyncio_TimeoutError = True, is_aiohttp_ClientError = False,
                          is_FileNotFoundError = False, is_PermissionError = False,
                          type_name = ''TimeoutError'', str_of = []\<rparr>)),
          \<lparr>calls = 1, sleeps = []\<rparr>)
   \<and> kind_of (Ollama (OllamaError ''refused'' CONNECTION [])) = CONNECTION
   \<and> retry_operation
       (\<lambda>i. Inl (Ollama (OllamaError ''refused'' CONNECTION [])) :: exception + string) 3 1
       = (Some (Inl (Ollama (OllamaError ''refused'' CONNECTION []))),
          \<lparr>calls = 1, sleeps = []\<rparr>)
   \<and> retry_operation
       (\<lambda>i. Inl (Ollama (ConnectionError ''refused'' [])) :: exception + string) 1026 0
       = (Some (Inl (builtin_exception ''OverflowError''
                       ''int too large to convert to float'')),
          \<lparr>calls = 1025, sleeps = replicate 1024 (Finite 0)\<rparr>)
   \<and> retry_operation
       (\<lambda>i. Inl (Ollama (ConnectionError ''refused'' [])) :: exception + string)
       3 (2 ^ 1023)
       = (None, \<lparr>calls = 2, sleeps = [Finite (2 ^ 1023), PosInf]\<rparr>)
   \<and> retry_operation
       (\<lambda>i. Inl (Ollama (ConnectionError ''refused'' [])) :: exception + string) 0 1
       = (Some (Inl (builtin_exception ''TypeError''
                       ''exceptions must derive from BaseException'')),
          \<lparr>calls = 0, sleeps = []\<rparr>)"
proof -
  let ?raw = "Raw \<lparr>is_asyncio_TimeoutError = True, is_aiohttp_ClientError = False,
                is_FileNotFoundError = False, is_PermissionError = False,
                type_name = ''TimeoutError'', str_of = []\<rparr>"
  let ?base = "Ollama (OllamaError ''refused'' CONNECTION [])"
  let ?op = "\<lambda>i::nat. Inl (Ollama (ConnectionError ''refused'' [])) :: exception + string"
  have k1: "kind_of ?raw = TIMEOUT" "kind_of ?base = CONNECTION"
    by (simp_all add: kind_of_def classify_error_def)
  have r1: "retry_operation (\<lambda>i. Inl ?raw :: exception + string) 3 1
              = (Some (Inl ?raw), \<lparr>calls = 1, sleeps = []\<rparr>)"
    using retry_failfast [of 0 "\<lambda>i. Inl ?raw :: exception + string" ?raw 3 1]
    by (simp add: finite_waits_def)
  have r2: "retry_operation (\<lambda>i. Inl ?base :: exception + string) 3 1
              = (Some (Inl ?base), \<lparr>calls = 1, sleeps = []\<rparr>)"
    using retry_failfast [of 0 "\<lambda>i. Inl ?base :: exception + string" ?base 3 1]
    by (simp add: finite_waits_def)
  have z: "map (\<lambda>i. Finite (0 * 2 ^ i)) [0..<1024] = replicate 1024 (Finite 0)"
    by (simp add: map_replicate_const)
  have "finite_waits 0 1024" by (simp add: finite_waits_iff)
  then have r3: "retry_operation ?op 1026 0
              = (Some (Inl (builtin_exception ''OverflowError''
                              ''int too large to convert to float'')),
                 \<lparr>calls = 1025, sleeps = replicate 1024 (Finite 0)\<rparr>)"
    using retry_overflow [of ?op 1026 0] by (simp only: z) simp
  have "finite_waits (2 ^ 1023) 1" by (simp add: finite_waits_def)
  then have r4: "retry_operation ?op 3 (2 ^ 1023)
              = (None, \<lparr>calls = 2, sleeps = [Finite (2 ^ 1023), PosInf]\<rparr>)"
    using retry_never_returns [of 1 ?op 3 "2 ^ 1023"] by simp
  have r5: "retry_operation ?op 0 1
              = (Some (Inl (builtin_exception ''TypeError''
                              ''exceptions must derive from BaseException'')),
                 \<lparr>calls = 0, sleeps = []\<rparr>)"
    by (simp add: retry_operation_def retry_loop.simps raise_last_def)
  from k1 r1 r2 r3 r4 r5 show ?thesis by blast
qed

text \<open>
  C4. A failure is retried only when its kind is Connection or Timeout. A failure
  that classifies as any other kind, Validation for one, is not retried: when the
  first call fails so, the operation has been called exactly once, nothing has been
  waited for, and that failure is what \<open>retry_operation\<close> raises. The same holds at any
  later attempt the loop reaches with finite waits: the failure ends the run at
  once. For the errors the classifier makes, being retried and being of kind
  Connection or Timeout are the same.
\<close>

theorem retry_only_connection_timeout:
  "(retryable e \<longrightarrow> kind_of e = CONNECTION \<or> kind_of e = TIMEOUT)
   \<and> (op 0 = Inl e' \<and> kind_of e' \<noteq> CONNECTION \<and> kind_of e' \<noteq> TIMEOUT \<and> 0 < K \<longrightarrow>
        retry_operation op K d = (Some (Inl e'), \<lparr>calls = 1, sleeps = []\<rparr>))
   \<and> ((\<forall>i<N. \<exists>x. op' i = Inl x \<and> retryable x) \<and> op' N = Inl e''
        \<and> kind_of e'' \<noteq> CONNECTION \<and> kind_of e'' \<noteq> TIMEOUT \<and> int N < K'
        \<and> N \<le> 1024 \<and> finite_waits d N \<longrightarrow>
        retry_operation op' K' d
          = (Some (Inl e''),
             \<lparr>calls = N + 1, sleeps = map (\<lambda>i. Finite (d * 2 ^ i)) [0..<N]\<rparr>))
   \<and> (retryable (Ollama (classify_error r)) \<longleftrightarrow>
        error_type (classify_error r) = CONNECTION \<or> error_type (classify_error r) = TIMEOUT)"
proof (intro conjI impI)
  show "retryable (Ollama (classify_error r)) \<longleftrightarrow>
        error_type (classify_error r) = CONNECTION \<or> error_type (classify_error r) = TIMEOUT"
    by (rule retryable_classified)
next
  assume "retryable e"
  then show "kind_of e = CONNECTION \<or> kind_of e = TIMEOUT" by (rule retryable_kind)
next
  assume a: "op 0 = Inl e' \<and> kind_of e' \<noteq> CONNECTION \<and> kind_of e' \<noteq> TIMEOUT \<and> 0 < K"
  then have "\<not> retryable e'" using retryable_kind by blast
  with a show "retry_operation op K d = (Some (Inl e'), \<lparr>calls = 1, sleeps = []\<rparr>)"
    using retry_failfast [of 0 op e' K d] by (simp add: finite_waits_def)
next
  assume a: "(\<forall>i<N. \<exists>x. op' i = Inl x \<and> retryable x) \<and> op' N = Inl e''
        \<and> kind_of e'' \<noteq> CONNECTION \<and> kind_of e'' \<noteq> TIMEOUT \<and> int N < K'
        \<and> N \<le> 1024 \<and> finite_waits d N"
  then have "\<not> retryable e''" using retryable_kind by blast
  with a show "retry_operation op' K' d
          = (Some (Inl e''),
             \<lparr>calls = N + 1, sleeps = map (\<lambda>i. Finite (d * 2 ^ i)) [0..<N]\<rparr>)"
    using retry_failfast [of N op' e'' K' d] by blast
qed

theorem retry_only_connection_timeout_witness:
  "retryable (Ollama (ConnectionError ''refused'' []))
   \<and> kind_of (Ollama (ConnectionError ''refused'' [])) = CONNECTION
   \<and> kind_of (Ollama (ValidationError ''bad input'' [])) = VALIDATION
   \<and> retry_operation
       (\<lambda>i. Inl (Ollama (ValidationError ''bad input'' [])) :: exception + string) 3 1
       = (Some (Inl (Ollama (ValidationError ''bad input'' []))),
          \<lparr>calls = 1, sleeps = []\<rparr>)
   \<and> retry_operation
       (\<lambda>i. if i < 1 then Inl (Ollama (TimeoutError ''slow'' []))
             else Inl (Ollama (ValidationError ''bad input'' [])) :: exception + string) 3 1
       = (Some (Inl (Ollama (ValidationError ''bad input'' []))),
          \<lparr>calls = 2, sleeps = [Finite 1]\<rparr>)"
  using retry_only_connection_timeout
    [of "Ollama (ConnectionError ''refused'' [])"
        "\<lambda>i. Inl (Ollama (ValidationError ''bad input'' [])) :: exception + string"
        "Ollama (ValidationError ''bad input'' [])" 3 1 1
        "\<lambda>i. if i < 1 then Inl (Ollama (TimeoutError ''slow'' []))
              else Inl (Ollama (ValidationError ''bad input'' [])) :: exception + string"
        "Ollama (ValidationError ''bad input'' [])" 3]
  by (simp add: kind_of_def finite_waits_def)

text \<open>
  C10. With a maximum attempt count of zero or less the operation is never called and
  nothing is waited for: the loop body does not run, and the final \<open>raise\<close> of the
  initial \<open>None\<close> is the interpreter's \<open>TypeError\<close>, which is not an \<open>OllamaError\<close>.
\<close>

theorem retry_nonpositive_never_calls:
  "K \<le> 0 \<longrightarrow>
     retry_operation op K d
       = (Some (Inl (builtin_exception ''TypeError''
                       ''exceptions must derive from BaseException'')),
          \<lparr>calls = 0, sleeps = []\<rparr>)
     \<and> (\<forall>x. builtin_exception ''TypeError'' ''exceptions must derive from BaseException''
              \<noteq> Ollama x)"
  by (simp add: retry_operation_def retry_loop.simps raise_last_def builtin_exception_def)

theorem retry_nonpositive_never_calls_witness:
  "retry_operation (\<lambda>i. Inr ''answer'') 0 1
     = (Some (Inl (builtin_exception ''TypeError''
                     ''exceptions must derive from BaseException'')),
        \<lparr>calls = 0, sleeps = []\<rparr>)
   \<and> retry_operation (\<lambda>i. Inr ''answer'') (- 2) 1
     = (Some (Inl (builtin_exception ''TypeError''
                     ''exceptions must derive from BaseException'')),
        \<lparr>calls = 0, sleeps = []\<rparr>)"
  using retry_nonpositive_never_calls [of 0 "\<lambda>i. Inr ''answer''" 1]
    retry_nonpositive_never_calls [of "- 2" "\<lambda>i. Inr ''answer''" 1]
  by simp

section \<open>The response cache\<close>






text \<open>
  C5. When the file of the entry can be written, the library reads back the
  timestamp it printed, the configured maximum age is a duration, and \<open>get\<close> runs no
  later than that duration after \<open>set\<close>, then \<open>get\<close> after \<open>set\<close> with the same question,
  context and model returns exactly the response that was stored, and leaves the
  disk as \<open>set\<close> left it.
\<close>

theorem set_get_roundtrip:
  "writable d (get_cache_file_path self (generate_cache_key q c m))
   \<and> fromisoformat (isoformat t) = Naive t
   \<and> timedelta (max_age_seconds self) = Some max_age
   \<and> t' - t \<le> max_age
   \<longrightarrow> get fromisoformat timedelta self t' (set_entry isoformat self t d q r c m) q c m
         = (Inr (PStr r), set_entry isoformat self t d q r c m)"
  by (simp add: get_def set_entry_def read_entry_def Let_def)

text \<open>An entry written on an empty disk at 2024-05-01 12:00:00 and read five seconds
  later by the default cache (times in microseconds since 0001-01-01; the 86400
  seconds of the default maximum age are 86400000000 microseconds).\<close>

theorem set_get_roundtrip_witness:
  "get (\<lambda>s. if s = ''2024-05-01T12:00:00'' then Naive 63850161600000000 else Invalid)
       (\<lambda>s. if s = 86400 then Some 86400000000 else None)
       default_cache 63850161605000000
       (set_entry (\<lambda>t. ''2024-05-01T12:00:00'') default_cache 63850161600000000
          \<lparr>files = Map.empty, writable = (\<lambda>p. True), removable = (\<lambda>p. True)\<rparr>
          ''what is a monad'' ''a monoid in the category of endofunctors'' [] ''codellama'')
       ''what is a monad'' [] ''codellama''
     = (Inr (PStr ''a monoid in the category of endofunctors''),
        set_entry (\<lambda>t. ''2024-05-01T12:00:00'') default_cache 63850161600000000
          \<lparr>files = Map.empty, writable = (\<lambda>p. True), removable = (\<lambda>p. True)\<rparr>
          ''what is a monad'' ''a monoid in the category of endofunctors'' [] ''codellama'')"
  using set_get_roundtrip
    [of "\<lparr>files = Map.empty, writable = (\<lambda>p. True), removable = (\<lambda>p. True)\<rparr>"
        default_cache "''what is a monad''" "[]" "''codellama''"
        "\<lambda>s. if s = ''2024-05-01T12:00:00'' then Naive 63850161600000000 else Invalid"
        "\<lambda>t. ''2024-05-01T12:00:00''" 63850161600000000
        "\<lambda>s. if s = 86400 then Some 86400000000 else None" 86400000000
        63850161605000000 "''a monoid in the category of endofunctors''"]
  by (simp add: default_cache_def init_cache_def)

text \<open>
  C6 (as amended). When the entry of a (question, context, model) is a stored
  dictionary whose timestamp the library reads as a time without zone, the clock has
  passed that time by more than the configured maximum age, and the file can be
  deleted, then \<open>get\<close> returns \<open>None\<close> and the entry is gone from the disk. The
  default maximum age is 24 hours.
\<close>

theorem get_expired_entry:
  "(files d (get_cache_file_path self (generate_cache_key q c m))
      = Some (Document (PDict items))
    \<and> map_of items ''timestamp'' = Some (PStr ts)
    \<and> fromisoformat ts = Naive t
    \<and> timedelta (max_age_seconds self) = Some max_age
    \<and> now - t > max_age
    \<and> removable d (get_cache_file_path self (generate_cache_key q c m))
    \<longrightarrow> get fromisoformat timedelta self now d q c m
          = (Inr PNone,
             d\<lparr>files := (files d)(get_cache_file_path self (generate_cache_key q c m)
                                     := None)\<rparr>))
   \<and> max_age_seconds default_cache = 24 * 3600"
  by (simp add: get_def read_entry_def Let_def os_remove_def default_cache_def
      init_cache_def)

text \<open>An entry stamped 2024-05-01 12:00:00, read by the default cache one second after
  its 24 hours are over.\<close>

theorem get_expired_entry_witness:
  "get (\<lambda>s. if s = ''2024-05-01T12:00:00'' then Naive 63850161600000000 else Invalid)
       (\<lambda>s. if s = 86400 then Some 86400000000 else None)
       default_cache 63850248001000000
       \<lparr>files = [get_cache_file_path default_cache
                   (generate_cache_key ''what is a monad'' [] ''codellama'')
                 \<mapsto> Document (PDict [(''response'', PStr ''a burrito''),
                                     (''timestamp'', PStr ''2024-05-01T12:00:00'')])],
        writable = (\<lambda>p. True), removable = (\<lambda>p. True)\<rparr>
       ''what is a monad'' [] ''codellama''
     = (Inr PNone, \<lparr>files = Map.empty, writable = (\<lambda>p. True), removable = (\<lambda>p. True)\<rparr>)"
  using get_expired_entry
    [of "\<lparr>files = [get_cache_file_path default_cache
                   (generate_cache_key ''what is a monad'' [] ''codellama'')
                 \<mapsto> Document (PDict [(''response'', PStr ''a burrito''),
                                     (''timestamp'', PStr ''2024-05-01T12:00:00'')])],
        writable = (\<lambda>p. True), removable = (\<lambda>p. True)\<rparr>"
        default_cache "''what is a monad''" "[]" "''codellama''"
        "[(''response'', PStr ''a burrito''), (''timestamp'', PStr ''2024-05-01T12:00:00'')]"
        "''2024-05-01T12:00:00''"
        "\<lambda>s. if s = ''2024-05-01T12:00:00'' then Naive 63850161600000000 else Invalid"
        63850161600000000
        "\<lambda>s. if s = 86400 then Some 86400000000 else None" 86400000000
        63850248001000000]
  by (simp add: default_cache_def init_cache_def)

text \<open>
  Where the unamended claim fails: the same expired entry in a directory that does
  not let it be deleted. The \<open>os.remove\<close> of the expiry branch raises an \<open>OSError\<close>,
  the handler catches it and calls \<open>os.remove\<close> again, and that second \<open>OSError\<close>
  reaches the caller; the entry stays on the disk.
\<close>

theorem get_expired_entry_not_removable:
  "get (\<lambda>s. if s = ''2024-05-01T12:00:00'' then Naive 63850161600000000 else Invalid)
       (\<lambda>s. if s = 86400 then Some 86400000000 else None)
       default_cache 63850248001000000
       \<lparr>files = [get_cache_file_path default_cache
                   (generate_cache_key ''what is a monad'' [] ''codellama'')
                 \<mapsto> Document (PDict [(''response'', PStr ''a burrito''),
                                     (''timestamp'', PStr ''2024-05-01T12:00:00'')])],
        writable = (\<lambda>p. False), removable = (\<lambda>p. False)\<rparr>
       ''what is a monad'' [] ''codellama''
     = (Inl OSError,
        \<lparr>files = [get_cache_file_path default_cache
                   (generate_cache_key ''what is a monad'' [] ''codellama'')
                 \<mapsto> Document (PDict [(''response'', PStr ''a burrito''),
                                     (''timestamp'', PStr ''2024-05-01T12:00:00'')])],
         writable = (\<lambda>p. False), removable = (\<lambda>p. False)\<rparr>)"
  by (simp add: get_def read_entry_def Let_def os_remove_def default_cache_def
      init_cache_def)

text \<open>
  C2 (where the code departs from it). An entry whose file holds the JSON document
  \<open>[]\<close>, which has none of the required fields: indexing the list by "timestamp" is a
  \<open>TypeError\<close>, which the handler of \<open>get\<close> does not name. The exception reaches the
  caller and the file stays on disk. The same happens for bytes that are not UTF-8,
  for a timestamp that is not a string and for one the library cannot read.
\<close>

theorem get_non_object_payload_raises:
  "get fromisoformat timedelta default_cache now
       \<lparr>files = [get_cache_file_path default_cache
                   (generate_cache_key ''what is a monad'' [] ''codellama'')
                 \<mapsto> Document (PList [])],
        writable = (\<lambda>p. True), removable = (\<lambda>p. True)\<rparr>
       ''what is a monad'' [] ''codellama''
     = (Inl TypeError,
        \<lparr>files = [get_cache_file_path default_cache
                   (generate_cache_key ''what is a monad'' [] ''codellama'')
                 \<mapsto> Document (PList [])],
         writable = (\<lambda>p. True), removable = (\<lambda>p. True)\<rparr>)"
  by (simp add: get_def read_entry_def Let_def)

text \<open>The malformed entries the handler does cover: text that is not JSON, a file that
  cannot be opened, and a dictionary without its timestamp are answered with \<open>None\<close>
  and removed, when the file can be deleted.\<close>

lemma get_caught_payload:
  assumes "files d (get_cache_file_path self (generate_cache_key q c m)) = Some content"
    and "content = NotJson \<or> content = Unreadable \<or>
         (\<exists>items. content = Document (PDict items) \<and> map_of items ''timestamp'' = None)"
    and "removable d (get_cache_file_path self (generate_cache_key q c m))"
  shows "get fromisoformat timedelta self now d q c m
           = (Inr PNone,
              d\<lparr>files := (files d)(get_cache_file_path self (generate_cache_key q c m)
                                      := None)\<rparr>)"
  using assms by (auto simp add: get_def read_entry_def Let_def os_remove_def)

lemma get_uncaught_payload:
  assumes "files d (get_cache_file_path self (generate_cache_key q c m)) = Some content"
    and "content = NotUtf8 \<or> content = Document (PStr s) \<or> content = Document PNone
         \<or> (\<exists>items. content = Document (PDict items)
                \<and> map_of items ''timestamp'' = Some (PStr ts) \<and> fromisoformat ts = Invalid)"
  shows "\<exists>e. get fromisoformat timedelta self now d q c m = (Inl e, d)"
  using assms by (auto simp add: get_def read_entry_def Let_def)

text \<open>A maximum age the library cannot make a duration of: the \<open>OverflowError\<close> of
  \<open>timedelta\<close> is not caught, whatever the age of the entry.\<close>

lemma get_timedelta_overflow:
  assumes "files d (get_cache_file_path self (generate_cache_key q c m))
             = Some (Document (PDict items))"
    and "map_of items ''timestamp'' = Some (PStr ts)"
    and "fromisoformat ts = Naive t"
    and "timedelta (max_age_seconds self) = None"
  shows "get fromisoformat timedelta self now d q c m = (Inl OverflowError, d)"
  using assms by (simp add: get_def read_entry_def Let_def)

end
